theory Spec2Isabelle
  imports Complex_Main "HOL-Library.Sublist"
begin

section \<open>Rule-based fallback classifiers of \<^verbatim>\<open>src/hooks/useTriage.ts\<close>\<close>

text \<open>
  The two functions embedded here are \<^verbatim>\<open>calculateFallbackTriage\<close> and
  \<^verbatim>\<open>calculateFallbackVerification\<close>. Conventions of the embedding:

  \<^item> A JavaScript string is a \<open>string\<close>: a list of code units below 256, so \<open>length\<close> is
    \<^verbatim>\<open>.length\<close>.
  \<^item> \<^verbatim>\<open>age\<close>, \<^verbatim>\<open>heartRate\<close> and \<^verbatim>\<open>oxygenSaturation\<close> come out of \<^verbatim>\<open>parseInt\<close> in the
    callers and are \<open>int\<close>; \<^verbatim>\<open>temperature\<close> comes out of \<^verbatim>\<open>parseFloat\<close> and is a \<open>rat\<close>
    (every finite double is a rational, and the code only compares it with \<open>39\<close>).
    The confidences are the decimal literals of the source, as rationals. \<^verbatim>\<open>NaN\<close> and
    the infinities are outside the model.
  \<^item> An optional field (\<^verbatim>\<open>x?: T\<close>) is an \<open>option\<close>; the truthiness tests of the source
    (\<^verbatim>\<open>x && ...\<close>, \<^verbatim>\<open>!x\<close>, \<^verbatim>\<open>x || d\<close>) are written out: \<^verbatim>\<open>undefined\<close>, the number \<open>0\<close>
    and the empty string are falsy.
  \<^item> The \<^verbatim>\<open>let\<close> variables of each function are a record that the branches update; the
    returned object extends it with the echoed fields.
\<close>

subsection \<open>Types of \<^verbatim>\<open>src/types/index.ts\<close>\<close>

datatype Category = Emergency | High | Medium | Low | Normal

datatype TriageSource = T_ml | T_rule_based | T_ai

text \<open>The variables \<^verbatim>\<open>urgencyLevel\<close>, \<^verbatim>\<open>category\<close>, \<^verbatim>\<open>explanation\<close> and
  \<^verbatim>\<open>recommendedAction\<close> of \<^verbatim>\<open>calculateFallbackTriage\<close>.\<close>

record TriageVars =
  urgencyLevel :: nat
  category :: Category
  explanation :: string
  recommendedAction :: string

text \<open>\<^verbatim>\<open>Omit<TriageResult, 'id' | 'createdAt' | 'patientId'>\<close>; the optional \<^verbatim>\<open>vitals\<close> of
  the result is never set by the fallback.\<close>

record TriageResult = TriageVars +
  patientName :: string
  confidence :: rat
  source :: TriageSource
  symptoms :: string

datatype VerificationStatus = Authentic | Suspicious | Counterfeit | Unknown

datatype VerificationSource = V_ml | V_rule_based

text \<open>The variables \<^verbatim>\<open>isAuthentic\<close>, \<^verbatim>\<open>confidence\<close>, \<^verbatim>\<open>verificationStatus\<close> and
  \<^verbatim>\<open>warningMessage\<close> of \<^verbatim>\<open>calculateFallbackVerification\<close>.\<close>

record VerificationVars =
  isAuthentic :: bool
  confidence :: rat
  verificationStatus :: VerificationStatus
  warningMessage :: "string option"

record Details =
  manufacturer :: "string option"
  expiryDate :: "string option"
  productionDate :: "string option"

text \<open>\<^verbatim>\<open>Omit<DrugVerificationResult, 'id' | 'verifiedAt'>\<close>.\<close>

record DrugVerificationResult = VerificationVars +
  drugName :: string
  batchNumber :: "string option"
  source :: VerificationSource
  details :: "Details option"

datatype Gender = male | female | other

record Vitals =
  bloodPressure :: "string option"
  heartRate :: "int option"
  temperature :: "rat option"
  oxygenSaturation :: "int option"

record TriageInput =
  patientId :: "string option"
  patientName :: string
  age :: int
  gender :: Gender
  symptoms :: string
  duration :: string
  vitals :: "Vitals option"
  force_ai :: "bool option"

record DrugVerificationInput =
  imageFile :: "string option"
  qrCode :: "string option"
  drugName :: "string option"
  batchNumber :: "string option"
  manufacturer :: "string option"

text \<open>\<^verbatim>\<open>URGENCY_CONFIG\<close>: the label that belongs to each urgency level.\<close>

definition URGENCY_label :: "nat \<Rightarrow> Category option" where
  "URGENCY_label l =
     (if l = 1 then Some Emergency
      else if l = 2 then Some High
      else if l = 3 then Some Medium
      else if l = 4 then Some Low
      else if l = 5 then Some Normal
      else None)"

subsection \<open>String primitives\<close>

text \<open>\<^verbatim>\<open>String.prototype.toLowerCase\<close> on code units below 256: the letters A to Z and
  the capital letters of Latin-1 (U+00C0 to U+00DE without the multiplication sign U+00D7)
  move up by 32; every other code unit is kept.\<close>

definition toLowerCase_char :: "char \<Rightarrow> char" where
  "toLowerCase_char c =
     (let n = (of_char c :: nat) in
      if (65 \<le> n \<and> n \<le> 90) \<or> (192 \<le> n \<and> n \<le> 222 \<and> n \<noteq> 215)
      then char_of (n + 32) else c)"

definition toLowerCase :: "string \<Rightarrow> string" where
  "toLowerCase s = map toLowerCase_char s"

text \<open>\<^verbatim>\<open>s.includes(kw)\<close>: \<open>kw\<close> starts at some position of \<open>s\<close>.\<close>

fun includes_str :: "string \<Rightarrow> string \<Rightarrow> bool" where
  "includes_str [] kw = (kw = [])"
| "includes_str (c # cs) kw = (prefix kw (c # cs) \<or> includes_str cs kw)"

text \<open>\<^verbatim>\<open>Array.prototype.some\<close>.\<close>

primrec some :: "('a \<Rightarrow> bool) \<Rightarrow> 'a list \<Rightarrow> bool" where
  "some p [] = False"
| "some p (x # xs) = (p x \<or> some p xs)"

text \<open>\<^verbatim>\<open>Array.prototype.every\<close>, for the character classes of the batch pattern.\<close>

primrec every :: "('a \<Rightarrow> bool) \<Rightarrow> 'a list \<Rightarrow> bool" where
  "every p [] = True"
| "every p (x # xs) = (p x \<and> every p xs)"

text \<open>\<^verbatim>\<open>x || d\<close> on an optional string: \<^verbatim>\<open>undefined\<close> and \<^verbatim>\<open>''\<close> give the default.\<close>

fun orDefault :: "string option \<Rightarrow> string \<Rightarrow> string" where
  "orDefault None d = d"
| "orDefault (Some s) d = (if s = [] then d else s)"

subsection \<open>\<^verbatim>\<open>calculateFallbackTriage\<close>\<close>

definition emergencyKeywords :: "string list" where
  "emergencyKeywords = [''chest pain'', ''difficulty breathing'', ''unconscious'',
     ''severe bleeding'', ''stroke'', ''heart attack'', ''seizure'', ''choking'']"

definition highKeywords :: "string list" where
  "highKeywords = [''high fever'', ''severe pain'', ''vomiting blood'', ''head injury'',
     ''fracture'', ''allergic reaction'']"

definition mediumKeywords :: "string list" where
  "mediumKeywords = [''moderate pain'', ''persistent fever'', ''infection'', ''dizziness'',
     ''weakness'']"

definition lowKeywords :: "string list" where
  "lowKeywords = [''mild pain'', ''cold'', ''cough'', ''headache'', ''fatigue'']"

text \<open>Lines 20 to 45: the keyword tiers, first match wins. The argument is the lower-cased
  symptom text.\<close>

definition selectTier :: "string \<Rightarrow> TriageVars" where
  "selectTier s =
     (if some (\<lambda>kw. includes_str s kw) emergencyKeywords then
        \<lparr>urgencyLevel = 1, category = Emergency,
         explanation = ''Patient symptoms indicate a potentially life-threatening condition requiring immediate attention.'',
         recommendedAction = ''Immediate medical intervention required. Alert emergency team.''\<rparr>
      else if some (\<lambda>kw. includes_str s kw) highKeywords then
        \<lparr>urgencyLevel = 2, category = High,
         explanation = ''Patient symptoms suggest a serious condition requiring urgent care.'',
         recommendedAction = ''Prioritize for urgent care within 30 minutes.''\<rparr>
      else if some (\<lambda>kw. includes_str s kw) mediumKeywords then
        \<lparr>urgencyLevel = 3, category = Medium,
         explanation = ''Patient symptoms indicate a condition requiring timely evaluation.'',
         recommendedAction = ''Schedule for evaluation within 1-2 hours.''\<rparr>
      else if some (\<lambda>kw. includes_str s kw) lowKeywords then
        \<lparr>urgencyLevel = 4, category = Low,
         explanation = ''Patient symptoms suggest a minor condition.'',
         recommendedAction = ''Can wait for routine care. Monitor for changes.''\<rparr>
      else
        \<lparr>urgencyLevel = 5, category = Normal,
         explanation = ''Standard evaluation recommended. No urgent symptoms detected.'',
         recommendedAction = ''Schedule routine appointment.''\<rparr>)"

text \<open>Lines 48 to 51.\<close>

definition adjustAge :: "int \<Rightarrow> TriageVars \<Rightarrow> TriageVars" where
  "adjustAge a st =
     (if a < 5 \<or> a > 70 then
        (let st1 = (if urgencyLevel st > 1 then st\<lparr>urgencyLevel := urgencyLevel st - 1\<rparr> else st)
         in st1\<lparr>explanation := explanation st1 @ '' Age factor increases priority.''\<rparr>)
      else st)"

text \<open>Lines 55 to 58.\<close>

definition adjustTemperature :: "rat option \<Rightarrow> TriageVars \<Rightarrow> TriageVars" where
  "adjustTemperature t st =
     (case t of
        None \<Rightarrow> st
      | Some x \<Rightarrow>
          if x \<noteq> 0 \<and> x > 39 then
            (let st1 = (if urgencyLevel st > 2 then st\<lparr>urgencyLevel := urgencyLevel st - 1\<rparr> else st)
             in st1\<lparr>explanation := explanation st1 @ '' High temperature noted.''\<rparr>)
          else st)"

text \<open>Lines 59 to 63.\<close>

definition adjustOxygen :: "int option \<Rightarrow> TriageVars \<Rightarrow> TriageVars" where
  "adjustOxygen ox st =
     (case ox of
        None \<Rightarrow> st
      | Some x \<Rightarrow>
          if x \<noteq> 0 \<and> x < 94 then
            st\<lparr>urgencyLevel := 1, category := Emergency,
               explanation := explanation st @ '' Low oxygen saturation - critical concern.''\<rparr>
          else st)"

text \<open>Lines 64 to 67.\<close>

definition adjustHeartRate :: "int option \<Rightarrow> TriageVars \<Rightarrow> TriageVars" where
  "adjustHeartRate hr st =
     (case hr of
        None \<Rightarrow> st
      | Some x \<Rightarrow>
          if x \<noteq> 0 \<and> (x > 120 \<or> x < 50) then
            (let st1 = (if urgencyLevel st > 2 then st\<lparr>urgencyLevel := 2\<rparr> else st)
             in st1\<lparr>explanation := explanation st1 @ '' Abnormal heart rate detected.''\<rparr>)
          else st)"

text \<open>Lines 53 to 68.\<close>

definition adjustVitals :: "Vitals option \<Rightarrow> TriageVars \<Rightarrow> TriageVars" where
  "adjustVitals vo st =
     (case vo of
        None \<Rightarrow> st
      | Some v \<Rightarrow>
          adjustHeartRate (heartRate v)
            (adjustOxygen (oxygenSaturation v)
              (adjustTemperature (temperature v) st)))"

text \<open>The variables when the \<^verbatim>\<open>return\<close> of line 70 is reached.\<close>

definition triageVars :: "TriageInput \<Rightarrow> TriageVars" where
  "triageVars input =
     adjustVitals (vitals input)
       (adjustAge (age input)
         (selectTier (toLowerCase (TriageInput.symptoms input))))"

definition calculateFallbackTriage :: "TriageInput \<Rightarrow> TriageResult" where
  "calculateFallbackTriage input =
     (let st = triageVars input in
      \<lparr>urgencyLevel = urgencyLevel st,
       category = category st,
       explanation = explanation st,
       recommendedAction = recommendedAction st,
       TriageResult.patientName = TriageInput.patientName input,
       TriageResult.confidence = 7 / 10,
       TriageResult.source = T_rule_based,
       TriageResult.symptoms = TriageInput.symptoms input\<rparr>)"

subsection \<open>\<^verbatim>\<open>calculateFallbackVerification\<close>\<close>

definition isUpperAZ :: "char \<Rightarrow> bool" where
  "isUpperAZ c = (65 \<le> (of_char c :: nat) \<and> (of_char c :: nat) \<le> 90)"

definition isDigit09 :: "char \<Rightarrow> bool" where
  "isDigit09 c = (48 \<le> (of_char c :: nat) \<and> (of_char c :: nat) \<le> 57)"

text \<open>\<^verbatim>\<open>/^[A-Z]{2}[0-9]{6,}$/.test(b)\<close>: the pattern has no flag, so both anchors are the
  ends of the string.\<close>

fun batchPattern :: "string \<Rightarrow> bool" where
  "batchPattern (c1 # c2 # ds) =
     (isUpperAZ c1 \<and> isUpperAZ c2 \<and> 6 \<le> length ds \<and> every isDigit09 ds)"
| "batchPattern _ = False"

text \<open>Lines 148 to 172. \<^verbatim>\<open>!batchNumber\<close> holds for \<^verbatim>\<open>undefined\<close> and for the empty string.\<close>

definition verificationVars :: "string option \<Rightarrow> VerificationVars" where
  "verificationVars bn =
     (let init = \<lparr>isAuthentic = True, confidence = 6 / 10,
                  verificationStatus = Authentic, warningMessage = None\<rparr>
      in case bn of
        None \<Rightarrow>
          init\<lparr>verificationStatus := Unknown, confidence := 3 / 10,
               warningMessage := Some ''No batch number provided. Unable to fully verify authenticity.'',
               isAuthentic := False\<rparr>
      | Some b \<Rightarrow>
          if b = [] then
            init\<lparr>verificationStatus := Unknown, confidence := 3 / 10,
                 warningMessage := Some ''No batch number provided. Unable to fully verify authenticity.'',
                 isAuthentic := False\<rparr>
          else if length b < 6 then
            init\<lparr>verificationStatus := Suspicious, confidence := 5 / 10,
                 warningMessage := Some ''Batch number format is unusual. Manual verification recommended.'',
                 isAuthentic := False\<rparr>
          else if batchPattern b then
            init\<lparr>verificationStatus := Authentic, confidence := 75 / 100,
                 isAuthentic := True\<rparr>
          else
            init\<lparr>verificationStatus := Suspicious, confidence := 4 / 10,
                 warningMessage := Some ''Batch number does not match expected format.'',
                 isAuthentic := False\<rparr>)"

definition calculateFallbackVerification :: "DrugVerificationInput \<Rightarrow> DrugVerificationResult" where
  "calculateFallbackVerification input =
     (let st = verificationVars (DrugVerificationInput.batchNumber input) in
      \<lparr>isAuthentic = isAuthentic st,
       confidence = VerificationVars.confidence st,
       verificationStatus = verificationStatus st,
       warningMessage = warningMessage st,
       DrugVerificationResult.drugName =
         orDefault (DrugVerificationInput.drugName input) ''Unknown Drug'',
       DrugVerificationResult.batchNumber = DrugVerificationInput.batchNumber input,
       DrugVerificationResult.source = V_rule_based,
       details = Some \<lparr>Details.manufacturer =
                         Some (orDefault (DrugVerificationInput.manufacturer input) ''Unknown''),
                       expiryDate = None, productionDate = None\<rparr>\<rparr>)"

section \<open>Properties\<close>

subsection \<open>Auxiliary facts\<close>

lemma includes_str_sublist: "includes_str s kw = sublist kw s"
  by (induction s) (auto simp: sublist_Cons_right)

lemma some_set: "some p xs = (\<exists>x \<in> set xs. p x)"
  by (induction xs) auto

lemma result_urgencyLevel [simp]:
  "urgencyLevel (calculateFallbackTriage i) = urgencyLevel (triageVars i)"
  by (simp add: calculateFallbackTriage_def Let_def)

lemma result_category [simp]:
  "category (calculateFallbackTriage i) = category (triageVars i)"
  by (simp add: calculateFallbackTriage_def Let_def)

lemma result_explanation [simp]:
  "explanation (calculateFallbackTriage i) = explanation (triageVars i)"
  by (simp add: calculateFallbackTriage_def Let_def)

lemma result_recommendedAction [simp]:
  "recommendedAction (calculateFallbackTriage i) = recommendedAction (triageVars i)"
  by (simp add: calculateFallbackTriage_def Let_def)

lemma selectTier_emergency:
  "some (\<lambda>kw. includes_str s kw) emergencyKeywords \<Longrightarrow>
     urgencyLevel (selectTier s) = 1 \<and> category (selectTier s) = Emergency"
  by (simp add: selectTier_def)

lemma selectTier_range: "1 \<le> urgencyLevel (selectTier s) \<and> urgencyLevel (selectTier s) \<le> 5"
  by (simp add: selectTier_def)

lemma selectTier_label:
  "URGENCY_label (urgencyLevel (selectTier s)) = Some (category (selectTier s))"
  by (simp add: selectTier_def URGENCY_label_def)

lemma adjustAge_level:
  "urgencyLevel (adjustAge a st) =
     (if (a < 5 \<or> a > 70) \<and> urgencyLevel st > 1 then urgencyLevel st - 1 else urgencyLevel st)"
  by (simp add: adjustAge_def Let_def)

lemma adjustAge_category: "category (adjustAge a st) = category st"
  by (simp add: adjustAge_def Let_def)

lemma adjustTemperature_level:
  "urgencyLevel (adjustTemperature t st) =
     (case t of None \<Rightarrow> urgencyLevel st
      | Some x \<Rightarrow> if x > 39 \<and> urgencyLevel st > 2 then urgencyLevel st - 1 else urgencyLevel st)"
  by (simp add: adjustTemperature_def Let_def split: option.splits)

lemma adjustTemperature_category: "category (adjustTemperature t st) = category st"
  by (simp add: adjustTemperature_def Let_def split: option.splits)

lemma adjustOxygen_level:
  "urgencyLevel (adjustOxygen ox st) =
     (case ox of None \<Rightarrow> urgencyLevel st
      | Some x \<Rightarrow> if x \<noteq> 0 \<and> x < 94 then 1 else urgencyLevel st)"
  by (simp add: adjustOxygen_def split: option.splits)

lemma adjustOxygen_category:
  "category (adjustOxygen ox st) =
     (case ox of None \<Rightarrow> category st
      | Some x \<Rightarrow> if x \<noteq> 0 \<and> x < 94 then Emergency else category st)"
  by (simp add: adjustOxygen_def split: option.splits)

lemma adjustHeartRate_level:
  "urgencyLevel (adjustHeartRate hr st) =
     (case hr of None \<Rightarrow> urgencyLevel st
      | Some x \<Rightarrow> if x \<noteq> 0 \<and> (x > 120 \<or> x < 50) \<and> urgencyLevel st > 2 then 2
                  else urgencyLevel st)"
  by (simp add: adjustHeartRate_def Let_def split: option.splits)

lemma adjustHeartRate_category: "category (adjustHeartRate hr st) = category st"
  by (simp add: adjustHeartRate_def Let_def split: option.splits)

lemmas level_simps = adjustAge_level adjustTemperature_level adjustOxygen_level
  adjustHeartRate_level

lemmas category_simps = adjustAge_category adjustTemperature_category adjustOxygen_category
  adjustHeartRate_category

subsection \<open>Emergency keywords\<close>

text \<open>
  C5. When the lower-cased symptom text contains one of the emergency keywords, the result
  has urgency level 1 and category Emergency. The tier selection gives level 1, the age
  adjustment leaves it at 1, and so do the vitals adjustments, whatever the age and the
  vitals are.
\<close>

theorem emergency_keyword_level_1:
  assumes "kw \<in> set emergencyKeywords"
    and "sublist kw (toLowerCase (TriageInput.symptoms i))"
  shows "urgencyLevel (calculateFallbackTriage i) = 1
       \<and> category (calculateFallbackTriage i) = Emergency
       \<and> urgencyLevel (selectTier (toLowerCase (TriageInput.symptoms i))) = 1
       \<and> urgencyLevel (adjustAge (age i) (selectTier (toLowerCase (TriageInput.symptoms i)))) = 1"
proof -
  let ?s = "toLowerCase (TriageInput.symptoms i)"
  from assms have "some (\<lambda>kw. includes_str ?s kw) emergencyKeywords"
    by (auto simp: some_set includes_str_sublist)
  then have base: "urgencyLevel (selectTier ?s) = 1" "category (selectTier ?s) = Emergency"
    using selectTier_emergency by blast+
  then have age1: "urgencyLevel (adjustAge (age i) (selectTier ?s)) = 1"
    by (simp add: adjustAge_level)
  have "urgencyLevel (triageVars i) = 1"
    using age1 by (simp add: triageVars_def adjustVitals_def level_simps split: option.splits)
  moreover have "category (triageVars i) = Emergency"
    using base by (simp add: triageVars_def adjustVitals_def category_simps split: option.splits)
  ultimately show ?thesis using base age1 by simp
qed

theorem emergency_keyword_level_1_witness:
  "''chest pain'' \<in> set emergencyKeywords
   \<and> sublist ''chest pain'' (toLowerCase ''Sudden CHEST PAIN since morning'')
   \<and> urgencyLevel (calculateFallbackTriage
        \<lparr>patientId = None, patientName = ''Ada'', age = 82, gender = female,
         symptoms = ''Sudden CHEST PAIN since morning'', duration = ''2 hours'',
         vitals = Some \<lparr>bloodPressure = None, heartRate = Some 130,
                        temperature = Some 40, oxygenSaturation = Some 97\<rparr>,
         force_ai = None\<rparr>) = 1
   \<and> category (calculateFallbackTriage
        \<lparr>patientId = None, patientName = ''Ada'', age = 82, gender = female,
         symptoms = ''Sudden CHEST PAIN since morning'', duration = ''2 hours'',
         vitals = Some \<lparr>bloodPressure = None, heartRate = Some 130,
                        temperature = Some 40, oxygenSaturation = Some 97\<rparr>,
         force_ai = None\<rparr>) = Emergency"
proof -
  have k: "''chest pain'' \<in> set emergencyKeywords"
    by (simp add: emergencyKeywords_def)
  have s: "sublist ''chest pain'' (toLowerCase ''Sudden CHEST PAIN since morning'')"
    by code_simp
  show ?thesis
    using k s emergency_keyword_level_1 [OF k, of
        "\<lparr>patientId = None, patientName = ''Ada'', age = 82, gender = female,
          symptoms = ''Sudden CHEST PAIN since morning'', duration = ''2 hours'',
          vitals = Some \<lparr>bloodPressure = None, heartRate = Some 130,
                         temperature = Some 40, oxygenSaturation = Some 97\<rparr>,
          force_ai = None\<rparr>"]
    by simp
qed

subsection \<open>Level and category\<close>

lemmas triage_defs = calculateFallbackTriage_def triageVars_def adjustVitals_def adjustAge_def
  adjustTemperature_def adjustOxygen_def adjustHeartRate_def selectTier_def toLowerCase_def
  toLowerCase_char_def emergencyKeywords_def highKeywords_def mediumKeywords_def
  lowKeywords_def

text \<open>
  C1. The category of the result should be the label that \<^verbatim>\<open>URGENCY_CONFIG\<close> gives to the
  result's urgency level. Only the oxygen adjustment assigns \<^verbatim>\<open>category\<close> together with
  \<^verbatim>\<open>urgencyLevel\<close>; the age, temperature and heart-rate adjustments change the level and
  keep the category of the keyword tier. For a four-year-old with a cold the result has
  level 3, whose label is Medium, and category Low.
\<close>

theorem category_mismatch_after_age_adjustment:
  "urgencyLevel (calculateFallbackTriage
      \<lparr>patientId = None, patientName = ''Ben'', age = 4, gender = male,
       symptoms = ''cold'', duration = ''2 days'', vitals = None, force_ai = None\<rparr>) = 3
   \<and> category (calculateFallbackTriage
      \<lparr>patientId = None, patientName = ''Ben'', age = 4, gender = male,
       symptoms = ''cold'', duration = ''2 days'', vitals = None, force_ai = None\<rparr>) = Low
   \<and> URGENCY_label 3 = Some Medium"
  by (simp add: triage_defs URGENCY_label_def)

subsection \<open>Oxygen saturation\<close>

text \<open>
  C2. An oxygen saturation below 94 should give urgency level 1 and category Emergency,
  whatever the symptom text, the age and the other vitals are. The guard of line 59,
  \<^verbatim>\<open>oxygenSaturation && oxygenSaturation < 94\<close>, tests the presence of the optional reading
  by its truthiness, and the number 0 is falsy: a reading of 0 is present and below 94, and
  the result keeps level 4 and category Low of the keyword tier. The readings 93 and -1 on
  the same input give level 1 and Emergency.
\<close>

theorem oxygen_zero_not_escalated:
  "(0::int) < 94
   \<and> urgencyLevel (calculateFallbackTriage
        \<lparr>patientId = None, patientName = ''Cy'', age = 30, gender = other,
         symptoms = ''mild pain'', duration = ''1 day'',
         vitals = Some \<lparr>bloodPressure = None, heartRate = None, temperature = None,
                        oxygenSaturation = Some 0\<rparr>,
         force_ai = None\<rparr>) = 4
   \<and> category (calculateFallbackTriage
        \<lparr>patientId = None, patientName = ''Cy'', age = 30, gender = other,
         symptoms = ''mild pain'', duration = ''1 day'',
         vitals = Some \<lparr>bloodPressure = None, heartRate = None, temperature = None,
                        oxygenSaturation = Some 0\<rparr>,
         force_ai = None\<rparr>) = Low
   \<and> urgencyLevel (calculateFallbackTriage
        \<lparr>patientId = None, patientName = ''Cy'', age = 30, gender = other,
         symptoms = ''mild pain'', duration = ''1 day'',
         vitals = Some \<lparr>bloodPressure = None, heartRate = None, temperature = None,
                        oxygenSaturation = Some 93\<rparr>,
         force_ai = None\<rparr>) = 1
   \<and> category (calculateFallbackTriage
        \<lparr>patientId = None, patientName = ''Cy'', age = 30, gender = other,
         symptoms = ''mild pain'', duration = ''1 day'',
         vitals = Some \<lparr>bloodPressure = None, heartRate = None, temperature = None,
                        oxygenSaturation = Some (- 1)\<rparr>,
         force_ai = None\<rparr>) = Emergency
   \<and> urgencyLevel (calculateFallbackTriage
        \<lparr>patientId = None, patientName = ''Cy'', age = 30, gender = other,
         symptoms = ''mild pain'', duration = ''1 day'',
         vitals = Some \<lparr>bloodPressure = None, heartRate = None, temperature = None,
                        oxygenSaturation = Some (- 1)\<rparr>,
         force_ai = None\<rparr>) = 1"
  by (simp add: triage_defs)

text \<open>Every reading below 94 other than 0 passes the guard, and the result is then level 1
  and Emergency: the heart-rate adjustment that follows leaves a level of 1.\<close>

lemma oxygen_guard_passed:
  assumes "vitals i = Some v"
    and "oxygenSaturation v = Some x"
    and "x \<noteq> 0"
    and "x < 94"
  shows "urgencyLevel (calculateFallbackTriage i) = 1
       \<and> category (calculateFallbackTriage i) = Emergency"
  using assms
  by (simp add: triageVars_def adjustVitals_def adjustHeartRate_level adjustOxygen_level
      adjustHeartRate_category adjustOxygen_category split: option.splits)

subsection \<open>Heart rate\<close>

text \<open>
  C4. A heart rate above 120 or below 50 should set a level greater than 2 directly to 2.
  The guard of line 64, \<^verbatim>\<open>heartRate && (heartRate > 120 || heartRate < 50)\<close>, tests the
  presence of the optional reading by its truthiness, and the number 0 is falsy: a heart
  rate of 0 is present and below 50, the level reached before the heart-rate adjustment is
  4, and the result keeps level 4. The heart rates 40, -10 and 130 on the same input give
  level 2, a jump of two steps.
\<close>

theorem heart_rate_zero_not_escalated:
  "((0::int) > 120 \<or> (0::int) < 50)
   \<and> urgencyLevel (adjustOxygen None (adjustTemperature None (adjustAge 30
        (selectTier (toLowerCase ''cold''))))) = 4
   \<and> urgencyLevel (calculateFallbackTriage
        \<lparr>patientId = None, patientName = ''Di'', age = 30, gender = female,
         symptoms = ''cold'', duration = ''1 day'',
         vitals = Some \<lparr>bloodPressure = None, heartRate = Some 0, temperature = None,
                        oxygenSaturation = None\<rparr>,
         force_ai = None\<rparr>) = 4
   \<and> urgencyLevel (calculateFallbackTriage
        \<lparr>patientId = None, patientName = ''Di'', age = 30, gender = female,
         symptoms = ''cold'', duration = ''1 day'',
         vitals = Some \<lparr>bloodPressure = None, heartRate = Some 40, temperature = None,
                        oxygenSaturation = None\<rparr>,
         force_ai = None\<rparr>) = 2
   \<and> urgencyLevel (calculateFallbackTriage
        \<lparr>patientId = None, patientName = ''Di'', age = 30, gender = female,
         symptoms = ''cold'', duration = ''1 day'',
         vitals = Some \<lparr>bloodPressure = None, heartRate = Some (- 10), temperature = None,
                        oxygenSaturation = None\<rparr>,
         force_ai = None\<rparr>) = 2
   \<and> urgencyLevel (calculateFallbackTriage
        \<lparr>patientId = None, patientName = ''Di'', age = 30, gender = female,
         symptoms = ''cold'', duration = ''1 day'',
         vitals = Some \<lparr>bloodPressure = None, heartRate = Some 130, temperature = None,
                        oxygenSaturation = None\<rparr>,
         force_ai = None\<rparr>) = 2"
  by (simp add: triage_defs)

text \<open>Every heart rate above 120 or below 50 other than 0 passes the guard: the result has
  level 2 when the level reached before was greater than 2, and that level otherwise.\<close>

lemma heart_rate_guard_passed:
  assumes "vitals i = Some v"
    and "heartRate v = Some h"
    and "h \<noteq> 0"
    and "h > 120 \<or> h < 50"
  shows "(let before = adjustOxygen (oxygenSaturation v)
                         (adjustTemperature (temperature v)
                           (adjustAge (age i)
                             (selectTier (toLowerCase (TriageInput.symptoms i)))))
          in urgencyLevel (calculateFallbackTriage i) =
               (if urgencyLevel before > 2 then 2 else urgencyLevel before))"
  using assms
  by (auto simp: Let_def triageVars_def adjustVitals_def level_simps split: option.splits)

subsection \<open>Age\<close>

lemma adjustVitals_None [simp]: "adjustVitals None st = st"
  by (simp add: adjustVitals_def)

lemma adjustAge_explanation:
  "explanation (adjustAge a st) =
     explanation st @ (if a < 5 \<or> a > 70 then '' Age factor increases priority.'' else [])"
  by (simp add: adjustAge_def Let_def)

lemma adjustTemperature_explanation:
  "explanation (adjustTemperature t st) =
     explanation st @
       (case t of None \<Rightarrow> []
        | Some x \<Rightarrow> if x > 39 then '' High temperature noted.'' else [])"
  by (simp add: adjustTemperature_def Let_def split: option.splits)

lemma adjustOxygen_explanation:
  "explanation (adjustOxygen ox st) =
     explanation st @
       (case ox of None \<Rightarrow> []
        | Some x \<Rightarrow> if x \<noteq> 0 \<and> x < 94 then '' Low oxygen saturation - critical concern.''
                    else [])"
  by (simp add: adjustOxygen_def split: option.splits)

lemma adjustHeartRate_explanation:
  "explanation (adjustHeartRate hr st) =
     explanation st @
       (case hr of None \<Rightarrow> []
        | Some x \<Rightarrow> if x \<noteq> 0 \<and> (x > 120 \<or> x < 50) then '' Abnormal heart rate detected.''
                    else [])"
  by (simp add: adjustHeartRate_def Let_def split: option.splits)



subsection \<open>Explanation text\<close>

text \<open>
  C10. The explanation of the result is the sentence of the keyword tier followed by one
  fragment for each adjustment whose condition holds on the input, in the order age,
  temperature, oxygen saturation, heart rate. The conditions do not mention the urgency
  level: the age fragment is appended also when the level is already 1, and the
  temperature fragment also when the level is already 2 or 1. (For oxygen saturation and
  heart rate the condition of the source includes that the reading is not 0.)
\<close>

theorem explanation_fragments:
  "explanation (calculateFallbackTriage i) =
     explanation (selectTier (toLowerCase (TriageInput.symptoms i)))
     @ (if age i < 5 \<or> age i > 70 then '' Age factor increases priority.'' else [])
     @ (case vitals i of
          None \<Rightarrow> []
        | Some v \<Rightarrow>
            (case temperature v of
               None \<Rightarrow> []
             | Some t \<Rightarrow> if t > 39 then '' High temperature noted.'' else [])
            @ (case oxygenSaturation v of
                 None \<Rightarrow> []
               | Some x \<Rightarrow> if x \<noteq> 0 \<and> x < 94
                           then '' Low oxygen saturation - critical concern.'' else [])
            @ (case heartRate v of
                 None \<Rightarrow> []
               | Some h \<Rightarrow> if h \<noteq> 0 \<and> (h > 120 \<or> h < 50)
                           then '' Abnormal heart rate detected.'' else []))"
  by (simp add: triageVars_def adjustVitals_def adjustAge_explanation
      adjustTemperature_explanation adjustOxygen_explanation adjustHeartRate_explanation
      split: option.splits)

theorem explanation_fragments_witness:
  "urgencyLevel (selectTier (toLowerCase ''stroke'')) = 1
   \<and> urgencyLevel (calculateFallbackTriage
        \<lparr>patientId = None, patientName = ''Flo'', age = 82, gender = female,
         symptoms = ''stroke'', duration = ''1 hour'',
         vitals = Some \<lparr>bloodPressure = None, heartRate = Some 40, temperature = Some 40,
                        oxygenSaturation = None\<rparr>,
         force_ai = None\<rparr>) = 1
   \<and> explanation (calculateFallbackTriage
        \<lparr>patientId = None, patientName = ''Flo'', age = 82, gender = female,
         symptoms = ''stroke'', duration = ''1 hour'',
         vitals = Some \<lparr>bloodPressure = None, heartRate = Some 40, temperature = Some 40,
                        oxygenSaturation = None\<rparr>,
         force_ai = None\<rparr>) =
       ''Patient symptoms indicate a potentially life-threatening condition requiring immediate attention. Age factor increases priority. High temperature noted. Abnormal heart rate detected.''"
proof -
  have l: "toLowerCase ''stroke'' = ''stroke''"
    by code_simp
  have b: "urgencyLevel (selectTier ''stroke'') = 1"
    "explanation (selectTier ''stroke'') =
       ''Patient symptoms indicate a potentially life-threatening condition requiring immediate attention.''"
    by code_simp+
  have u: "urgencyLevel (calculateFallbackTriage
        \<lparr>patientId = None, patientName = ''Flo'', age = 82, gender = female,
         symptoms = ''stroke'', duration = ''1 hour'',
         vitals = Some \<lparr>bloodPressure = None, heartRate = Some 40, temperature = Some 40,
                        oxygenSaturation = None\<rparr>,
         force_ai = None\<rparr>) = 1"
    using l b by (simp add: triageVars_def adjustVitals_def level_simps)
  show ?thesis
    using l b u
      explanation_fragments [of
        "\<lparr>patientId = None, patientName = ''Flo'', age = 82, gender = female,
          symptoms = ''stroke'', duration = ''1 hour'',
          vitals = Some \<lparr>bloodPressure = None, heartRate = Some 40, temperature = Some 40,
                         oxygenSaturation = None\<rparr>,
          force_ai = None\<rparr>"]
    by simp
qed

subsection \<open>Drug verification\<close>

lemma every_set: "every p xs = (\<forall>x \<in> set xs. p x)"
  by (induction xs) auto

text \<open>The batch pattern in words: two letters from A to Z, then six or more digits, and
  nothing else.\<close>

lemma batchPattern_iff:
  "batchPattern b =
     (\<exists>c1 c2 ds. b = c1 # c2 # ds \<and> isUpperAZ c1 \<and> isUpperAZ c2
        \<and> 6 \<le> length ds \<and> (\<forall>c \<in> set ds. isDigit09 c))"
  by (cases b rule: batchPattern.cases) (auto simp: every_set)

lemma batchPattern_length: "batchPattern b \<Longrightarrow> 8 \<le> length b"
  by (auto simp: batchPattern_iff)

lemmas verification_defs = calculateFallbackVerification_def verificationVars_def

lemma result_verificationVars:
  "isAuthentic (calculateFallbackVerification d) =
     isAuthentic (verificationVars (DrugVerificationInput.batchNumber d))"
  "confidence (calculateFallbackVerification d) =
     confidence (verificationVars (DrugVerificationInput.batchNumber d))"
  "verificationStatus (calculateFallbackVerification d) =
     verificationStatus (verificationVars (DrugVerificationInput.batchNumber d))"
  "warningMessage (calculateFallbackVerification d) =
     warningMessage (verificationVars (DrugVerificationInput.batchNumber d))"
  by (simp_all add: calculateFallbackVerification_def Let_def)

lemma verificationVars_absent:
  "b = None \<or> b = Some [] \<Longrightarrow>
     verificationVars b =
       \<lparr>isAuthentic = False, confidence = 3 / 10, verificationStatus = Unknown,
        warningMessage = Some ''No batch number provided. Unable to fully verify authenticity.''\<rparr>"
  by (auto simp: verificationVars_def)

lemma verificationVars_short:
  "s \<noteq> [] \<Longrightarrow> length s < 6 \<Longrightarrow>
     verificationVars (Some s) =
       \<lparr>isAuthentic = False, confidence = 5 / 10, verificationStatus = Suspicious,
        warningMessage = Some ''Batch number format is unusual. Manual verification recommended.''\<rparr>"
  by (simp add: verificationVars_def)

lemma verificationVars_match:
  assumes "6 \<le> length s" and "batchPattern s"
  shows "verificationVars (Some s) =
       \<lparr>isAuthentic = True, confidence = 75 / 100, verificationStatus = Authentic,
        warningMessage = None\<rparr>"
proof -
  from assms(1) have "s \<noteq> []" by auto
  with assms show ?thesis by (simp add: verificationVars_def Let_def)
qed

lemma verificationVars_other:
  assumes "6 \<le> length s" and "\<not> batchPattern s"
  shows "verificationVars (Some s) =
       \<lparr>isAuthentic = False, confidence = 4 / 10, verificationStatus = Suspicious,
        warningMessage = Some ''Batch number does not match expected format.''\<rparr>"
proof -
  from assms(1) have "s \<noteq> []" by auto
  with assms show ?thesis by (simp add: verificationVars_def Let_def)
qed

text \<open>
  C3, as amended. The classifier is a decision list on the batch number. An absent or empty
  batch number gives status unknown, confidence 0.30 and not authentic; a non-empty one
  shorter than 6 gives suspicious, 0.50, not authentic; one of length 6 or more that matches
  the anchored pattern of two uppercase letters and six or more digits gives authentic,
  0.75, authentic and no warning; any other gives suspicious, 0.40, not authentic.
\<close>

theorem verification_decision_list:
  "(let b = DrugVerificationInput.batchNumber d;
        r = calculateFallbackVerification d
    in (b = None \<or> b = Some [] \<longrightarrow>
          verificationStatus r = Unknown \<and> confidence r = 3 / 10 \<and> \<not> isAuthentic r)
     \<and> (\<forall>s. b = Some s \<and> s \<noteq> [] \<and> length s < 6 \<longrightarrow>
          verificationStatus r = Suspicious \<and> confidence r = 5 / 10 \<and> \<not> isAuthentic r)
     \<and> (\<forall>s. b = Some s \<and> 6 \<le> length s \<and> batchPattern s \<longrightarrow>
          verificationStatus r = Authentic \<and> confidence r = 75 / 100 \<and> isAuthentic r
          \<and> warningMessage r = None)
     \<and> (\<forall>s. b = Some s \<and> 6 \<le> length s \<and> \<not> batchPattern s \<longrightarrow>
          verificationStatus r = Suspicious \<and> confidence r = 4 / 10 \<and> \<not> isAuthentic r))"
  unfolding Let_def result_verificationVars
  by (auto simp: verificationVars_absent verificationVars_short verificationVars_match
      verificationVars_other)

theorem verification_decision_list_witness:
  "batchPattern ''AB123456'' \<and> \<not> batchPattern ''AB12345X''
   \<and> verificationStatus (calculateFallbackVerification
        \<lparr>imageFile = None, qrCode = None, drugName = Some ''Aspirin'',
         batchNumber = None, manufacturer = None\<rparr>) = Unknown
   \<and> confidence (calculateFallbackVerification
        \<lparr>imageFile = None, qrCode = None, drugName = Some ''Aspirin'',
         batchNumber = Some ''XY12'', manufacturer = None\<rparr>) = 5 / 10
   \<and> verificationStatus (calculateFallbackVerification
        \<lparr>imageFile = None, qrCode = None, drugName = Some ''Aspirin'',
         batchNumber = Some ''AB123456'', manufacturer = None\<rparr>) = Authentic
   \<and> confidence (calculateFallbackVerification
        \<lparr>imageFile = None, qrCode = None, drugName = Some ''Aspirin'',
         batchNumber = Some ''AB12345X'', manufacturer = None\<rparr>) = 4 / 10"
proof -
  have p: "batchPattern ''AB123456''" "\<not> batchPattern ''AB12345X''"
    by code_simp+
  show ?thesis
    using p
      verification_decision_list [of
        "\<lparr>imageFile = None, qrCode = None, drugName = Some ''Aspirin'',
          batchNumber = None, manufacturer = None\<rparr>"]
      verification_decision_list [of
        "\<lparr>imageFile = None, qrCode = None, drugName = Some ''Aspirin'',
          batchNumber = Some ''XY12'', manufacturer = None\<rparr>"]
      verification_decision_list [of
        "\<lparr>imageFile = None, qrCode = None, drugName = Some ''Aspirin'',
          batchNumber = Some ''AB123456'', manufacturer = None\<rparr>"]
      verification_decision_list [of
        "\<lparr>imageFile = None, qrCode = None, drugName = Some ''Aspirin'',
          batchNumber = Some ''AB12345X'', manufacturer = None\<rparr>"]
    by (simp add: Let_def)
qed

text \<open>
  C3 as stated fails at the empty batch number, which the form sends when the field is left
  blank: it is present and shorter than 6, and the result is unknown with confidence 0.30,
  since \<^verbatim>\<open>!batchNumber\<close> holds for the empty string.
\<close>

theorem empty_batch_counterexample:
  "length ('''' :: string) < 6
   \<and> DrugVerificationInput.batchNumber
        \<lparr>imageFile = None, qrCode = None, drugName = Some ''Aspirin'',
         batchNumber = Some '''', manufacturer = None\<rparr> \<noteq> None
   \<and> verificationStatus (calculateFallbackVerification
        \<lparr>imageFile = None, qrCode = None, drugName = Some ''Aspirin'',
         batchNumber = Some '''', manufacturer = None\<rparr>) = Unknown
   \<and> confidence (calculateFallbackVerification
        \<lparr>imageFile = None, qrCode = None, drugName = Some ''Aspirin'',
         batchNumber = Some '''', manufacturer = None\<rparr>) = 3 / 10"
  by (simp add: verification_defs)

text \<open>
  C6. In every result of the drug classifier, \<^verbatim>\<open>isAuthentic\<close> is true exactly when
  \<^verbatim>\<open>verificationStatus\<close> is authentic.
\<close>

theorem authentic_iff_status:
  "isAuthentic (calculateFallbackVerification d) =
     (verificationStatus (calculateFallbackVerification d) = Authentic)"
  by (simp add: verification_defs Let_def split: option.splits)

theorem authentic_iff_status_witness:
  "isAuthentic (calculateFallbackVerification
      \<lparr>imageFile = None, qrCode = None, drugName = Some ''Aspirin'',
       batchNumber = Some ''AB123456'', manufacturer = None\<rparr>)
   \<and> verificationStatus (calculateFallbackVerification
      \<lparr>imageFile = None, qrCode = None, drugName = Some ''Aspirin'',
       batchNumber = Some ''AB123456'', manufacturer = None\<rparr>) = Authentic
   \<and> \<not> isAuthentic (calculateFallbackVerification
      \<lparr>imageFile = None, qrCode = None, drugName = Some ''Aspirin'',
       batchNumber = Some ''XY12'', manufacturer = None\<rparr>)
   \<and> verificationStatus (calculateFallbackVerification
      \<lparr>imageFile = None, qrCode = None, drugName = Some ''Aspirin'',
       batchNumber = Some ''XY12'', manufacturer = None\<rparr>) \<noteq> Authentic"
proof -
  have p: "batchPattern ''AB123456''"
    by code_simp
  have a: "isAuthentic (calculateFallbackVerification
      \<lparr>imageFile = None, qrCode = None, drugName = Some ''Aspirin'',
       batchNumber = Some ''AB123456'', manufacturer = None\<rparr>)"
    using p by (simp add: verification_defs)
  have b: "\<not> isAuthentic (calculateFallbackVerification
      \<lparr>imageFile = None, qrCode = None, drugName = Some ''Aspirin'',
       batchNumber = Some ''XY12'', manufacturer = None\<rparr>)"
    by (simp add: verification_defs)
  show ?thesis
    using a b
      authentic_iff_status [of
        "\<lparr>imageFile = None, qrCode = None, drugName = Some ''Aspirin'',
          batchNumber = Some ''AB123456'', manufacturer = None\<rparr>"]
      authentic_iff_status [of
        "\<lparr>imageFile = None, qrCode = None, drugName = Some ''Aspirin'',
          batchNumber = Some ''XY12'', manufacturer = None\<rparr>"]
    by simp
qed

subsection \<open>Totality\<close>

lemma selectTier_texts:
  "explanation (selectTier s) \<noteq> [] \<and> recommendedAction (selectTier s) \<noteq> []"
  by (simp add: selectTier_def)

lemma selectTier_default:
  "\<not> some (\<lambda>kw. includes_str s kw) emergencyKeywords \<Longrightarrow>
   \<not> some (\<lambda>kw. includes_str s kw) highKeywords \<Longrightarrow>
   \<not> some (\<lambda>kw. includes_str s kw) mediumKeywords \<Longrightarrow>
   \<not> some (\<lambda>kw. includes_str s kw) lowKeywords \<Longrightarrow>
     urgencyLevel (selectTier s) = 5 \<and> category (selectTier s) = Normal"
  by (simp add: selectTier_def)

lemma triageVars_range: "1 \<le> urgencyLevel (triageVars i) \<and> urgencyLevel (triageVars i) \<le> 5"
  using selectTier_range [of "toLowerCase (TriageInput.symptoms i)"]
  by (auto simp: triageVars_def adjustVitals_def level_simps split: option.splits)

lemma triageVars_explanation: "explanation (triageVars i) \<noteq> []"
  using selectTier_texts [of "toLowerCase (TriageInput.symptoms i)"]
  by (simp add: triageVars_def adjustVitals_def adjustAge_explanation
      adjustTemperature_explanation adjustOxygen_explanation adjustHeartRate_explanation
      split: option.splits)

lemma adjust_recommendedAction:
  "recommendedAction (adjustAge a st) = recommendedAction st"
  "recommendedAction (adjustTemperature t st) = recommendedAction st"
  "recommendedAction (adjustOxygen ox st) = recommendedAction st"
  "recommendedAction (adjustHeartRate hr st) = recommendedAction st"
  by (simp_all add: adjustAge_def adjustTemperature_def adjustOxygen_def adjustHeartRate_def
      Let_def split: option.splits)

lemma triageVars_recommendedAction:
  "recommendedAction (triageVars i) =
     recommendedAction (selectTier (toLowerCase (TriageInput.symptoms i)))"
  by (simp add: triageVars_def adjustVitals_def adjust_recommendedAction split: option.splits)

lemma orDefault_nonempty: "d \<noteq> [] \<Longrightarrow> orDefault x d \<noteq> []"
  by (cases x) auto

lemma verificationVars_confidence:
  "0 \<le> confidence (verificationVars b) \<and> confidence (verificationVars b) \<le> 1"
  by (simp add: verificationVars_def Let_def split: option.splits)

text \<open>
  C8. Both classifiers return a result on every input; neither has a path that raises, so
  the embedding needs no error value. The triage result has a level from 1 to 5, a
  non-empty explanation and recommended action, confidence 0.7, source rule-based and the
  echoed name and symptoms. When no keyword of any tier occurs in the lower-cased text the
  tier is level 5 / Normal, and that is the result when no adjustment applies. The drug
  result has a confidence between 0 and 1, a non-empty drug name, the echoed batch number,
  source rule-based, a non-empty manufacturer detail, and a warning except when authentic.
\<close>

theorem classifiers_total:
  "(\<exists>r. calculateFallbackTriage i = r
        \<and> 1 \<le> urgencyLevel r \<and> urgencyLevel r \<le> 5
        \<and> explanation r \<noteq> [] \<and> recommendedAction r \<noteq> []
        \<and> TriageResult.confidence r = 7 / 10
        \<and> TriageResult.source r = T_rule_based
        \<and> TriageResult.patientName r = TriageInput.patientName i
        \<and> TriageResult.symptoms r = TriageInput.symptoms i)
   \<and> (\<not> some (\<lambda>kw. includes_str (toLowerCase (TriageInput.symptoms i)) kw) emergencyKeywords
        \<and> \<not> some (\<lambda>kw. includes_str (toLowerCase (TriageInput.symptoms i)) kw) highKeywords
        \<and> \<not> some (\<lambda>kw. includes_str (toLowerCase (TriageInput.symptoms i)) kw) mediumKeywords
        \<and> \<not> some (\<lambda>kw. includes_str (toLowerCase (TriageInput.symptoms i)) kw) lowKeywords
      \<longrightarrow> urgencyLevel (selectTier (toLowerCase (TriageInput.symptoms i))) = 5
          \<and> category (selectTier (toLowerCase (TriageInput.symptoms i))) = Normal
          \<and> (5 \<le> age i \<and> age i \<le> 70 \<and> vitals i = None
              \<longrightarrow> urgencyLevel (calculateFallbackTriage i) = 5
                  \<and> category (calculateFallbackTriage i) = Normal))
   \<and> (\<exists>r. calculateFallbackVerification d = r
        \<and> 0 \<le> confidence r \<and> confidence r \<le> 1
        \<and> DrugVerificationResult.drugName r \<noteq> []
        \<and> DrugVerificationResult.batchNumber r = DrugVerificationInput.batchNumber d
        \<and> DrugVerificationResult.source r = V_rule_based
        \<and> (\<exists>m. m \<noteq> []
              \<and> details r = Some \<lparr>Details.manufacturer = Some m, expiryDate = None,
                                   productionDate = None\<rparr>)
        \<and> (warningMessage r = None) = (verificationStatus r = Authentic))"
proof -
  let ?s = "toLowerCase (TriageInput.symptoms i)"
  have t1: "1 \<le> urgencyLevel (calculateFallbackTriage i)
            \<and> urgencyLevel (calculateFallbackTriage i) \<le> 5"
    using triageVars_range [of i] by simp
  have t2: "explanation (calculateFallbackTriage i) \<noteq> []"
    using triageVars_explanation [of i] by simp
  have t3: "recommendedAction (calculateFallbackTriage i) \<noteq> []"
    using selectTier_texts [of ?s] by (simp add: triageVars_recommendedAction)
  have t4: "TriageResult.confidence (calculateFallbackTriage i) = 7 / 10
            \<and> TriageResult.source (calculateFallbackTriage i) = T_rule_based
            \<and> TriageResult.patientName (calculateFallbackTriage i) = TriageInput.patientName i
            \<and> TriageResult.symptoms (calculateFallbackTriage i) = TriageInput.symptoms i"
    by (simp add: calculateFallbackTriage_def Let_def)
  have t5: "urgencyLevel (calculateFallbackTriage i) = urgencyLevel (selectTier ?s)
            \<and> category (calculateFallbackTriage i) = category (selectTier ?s)"
    if "5 \<le> age i" and "age i \<le> 70" and "vitals i = None"
    using that by (simp add: triageVars_def adjustAge_def)
  have v1: "0 \<le> confidence (calculateFallbackVerification d)
            \<and> confidence (calculateFallbackVerification d) \<le> 1"
    using verificationVars_confidence [of "DrugVerificationInput.batchNumber d"]
    by (simp add: result_verificationVars)
  have v2: "DrugVerificationResult.drugName (calculateFallbackVerification d) \<noteq> []"
    by (simp add: calculateFallbackVerification_def Let_def orDefault_nonempty)
  have v3: "DrugVerificationResult.batchNumber (calculateFallbackVerification d) =
              DrugVerificationInput.batchNumber d
            \<and> DrugVerificationResult.source (calculateFallbackVerification d) = V_rule_based"
    by (simp add: calculateFallbackVerification_def Let_def)
  have v4: "\<exists>m. m \<noteq> [] \<and> details (calculateFallbackVerification d) =
              Some \<lparr>Details.manufacturer = Some m, expiryDate = None, productionDate = None\<rparr>"
    by (simp add: calculateFallbackVerification_def Let_def orDefault_nonempty)
  have v5: "(warningMessage (calculateFallbackVerification d) = None) =
              (verificationStatus (calculateFallbackVerification d) = Authentic)"
    by (simp add: result_verificationVars verificationVars_def Let_def split: option.splits)
  show ?thesis
    using t1 t2 t3 t4 t5 v1 v2 v3 v4 v5 selectTier_default [of ?s] by simp
qed

theorem classifiers_total_witness:
  "urgencyLevel (calculateFallbackTriage
      \<lparr>patientId = None, patientName = '''', age = - 3, gender = other,
       symptoms = '''', duration = '''', vitals = None, force_ai = None\<rparr>) = 4
   \<and> urgencyLevel (calculateFallbackTriage
      \<lparr>patientId = None, patientName = '''', age = 30, gender = other,
       symptoms = '''', duration = '''', vitals = None, force_ai = None\<rparr>) = 5
   \<and> category (calculateFallbackTriage
      \<lparr>patientId = None, patientName = '''', age = 30, gender = other,
       symptoms = '''', duration = '''', vitals = None, force_ai = None\<rparr>) = Normal
   \<and> DrugVerificationResult.drugName (calculateFallbackVerification
      \<lparr>imageFile = None, qrCode = None, drugName = None, batchNumber = None,
       manufacturer = None\<rparr>) = ''Unknown Drug''
   \<and> verificationStatus (calculateFallbackVerification
      \<lparr>imageFile = None, qrCode = None, drugName = None, batchNumber = None,
       manufacturer = None\<rparr>) = Unknown"
proof -
  have l: "toLowerCase '''' = ''''"
    by code_simp
  have n: "\<not> some (\<lambda>kw. includes_str '''' kw) emergencyKeywords"
    "\<not> some (\<lambda>kw. includes_str '''' kw) highKeywords"
    "\<not> some (\<lambda>kw. includes_str '''' kw) mediumKeywords"
    "\<not> some (\<lambda>kw. includes_str '''' kw) lowKeywords"
    by code_simp+
  have a: "urgencyLevel (calculateFallbackTriage
      \<lparr>patientId = None, patientName = '''', age = - 3, gender = other,
       symptoms = '''', duration = '''', vitals = None, force_ai = None\<rparr>) = 4"
    by (simp add: triage_defs)
  have v: "DrugVerificationResult.drugName (calculateFallbackVerification
      \<lparr>imageFile = None, qrCode = None, drugName = None, batchNumber = None,
       manufacturer = None\<rparr>) = ''Unknown Drug''"
    "verificationStatus (calculateFallbackVerification
      \<lparr>imageFile = None, qrCode = None, drugName = None, batchNumber = None,
       manufacturer = None\<rparr>) = Unknown"
    by (simp_all add: verification_defs)
  show ?thesis
    using l n a v
      classifiers_total [of
        "\<lparr>patientId = None, patientName = '''', age = 30, gender = other,
          symptoms = '''', duration = '''', vitals = None, force_ai = None\<rparr>"
        "\<lparr>imageFile = None, qrCode = None, drugName = None, batchNumber = None,
          manufacturer = None\<rparr>"]
    by simp
qed

end
